theory Spec2Isabelle
  imports Complex_Main
begin

section \<open>Data model\<close>

text \<open>
  The chart of \<^verbatim>\<open>src/graph/Graph.ts\<close> (two canvases, background and foreground) and
  its older single-canvas variant. There are two embeddings of the numbers. In the first,
  of both variants, a number is a real and the arithmetic is exact: it carries the
  properties that relate the operations to each other and to the calls they make on the
  canvases, which do not depend on rounding. In the second, of Graph.ts (section
  ``JavaScript numbers''), a number is an IEEE-754 double with its zeros, infinities and
  NaN, and every operation rounds: it carries the properties of the values that are
  computed, the pixel positions and the division by a width of zero.
  The fields \<^verbatim>\<open>x\<close>, \<^verbatim>\<open>y\<close> of a point are \<open>px\<close>, \<open>py\<close> and the fields \<^verbatim>\<open>min\<close>, \<^verbatim>\<open>max\<close> of a
  range are \<open>rmin\<close>, \<open>rmax\<close>; the private fields of the chart carry the prefix \<open>g_\<close>
  (two canvases) or \<open>s_\<close> (one canvas), and the operations of the single-canvas variant
  the prefix \<open>s_\<close>. The placement of the canvases in the page (\<^verbatim>\<open>render\<close> and the style
  properties set by the constructor) is not modelled.
\<close>

record Point =
  px :: real
  py :: real

record Range =
  rmin :: real
  rmax :: real

record Size =
  width :: real
  height :: real

record LineStyle =
  strokeStyle :: string
  lineWidth :: real

record TextStyle =
  font :: string
  fillStyle :: string
  textAlign :: string

text \<open>\<^verbatim>\<open>Partial<LineStyle>\<close> and \<^verbatim>\<open>Partial<TextStyle>\<close>: every property may be absent.\<close>

record PartialLineStyle =
  strokeStyle_opt :: "string option"
  lineWidth_opt :: "real option"

record PartialTextStyle =
  font_opt :: "string option"
  fillStyle_opt :: "string option"
  textAlign_opt :: "string option"

text \<open>The object spread \<^verbatim>\<open>{...base, ...overrides}\<close>: a present property overrides.\<close>

definition spreadLine :: "LineStyle \<Rightarrow> PartialLineStyle \<Rightarrow> LineStyle" where
  "spreadLine base ov =
     \<lparr> strokeStyle = (case strokeStyle_opt ov of None \<Rightarrow> strokeStyle base | Some s \<Rightarrow> s),
       lineWidth = (case lineWidth_opt ov of None \<Rightarrow> lineWidth base | Some w \<Rightarrow> w) \<rparr>"

definition spreadText :: "TextStyle \<Rightarrow> PartialTextStyle \<Rightarrow> TextStyle" where
  "spreadText base ov =
     \<lparr> font = (case font_opt ov of None \<Rightarrow> font base | Some s \<Rightarrow> s),
       fillStyle = (case fillStyle_opt ov of None \<Rightarrow> fillStyle base | Some s \<Rightarrow> s),
       textAlign = (case textAlign_opt ov of None \<Rightarrow> textAlign base | Some s \<Rightarrow> s) \<rparr>"

definition OFFSET :: real where
  "OFFSET = 30"

definition PLOT_LINE_COLOR :: string where
  "PLOT_LINE_COLOR = ''#308c2c''"

definition GRID_LINE_COLOR :: string where
  "GRID_LINE_COLOR = ''#88abcf''"

definition AXIS_LINE_COLOR :: string where
  "AXIS_LINE_COLOR = ''#ff0000''"

definition DEFAULT_LINE_STYLE :: LineStyle where
  "DEFAULT_LINE_STYLE = \<lparr> strokeStyle = ''#000000'', lineWidth = 1 \<rparr>"

definition DEFAULT_TEXT_STYLE :: TextStyle where
  "DEFAULT_TEXT_STYLE = \<lparr> font = ''10pt Arial'', fillStyle = ''#000000'', textAlign = ''right'' \<rparr>"


section \<open>Collaborators that are not part of the sources\<close>

subsection \<open>The transform\<close>

text \<open>
  Modelled from the spec: the class \<^verbatim>\<open>geometry.transform.Transform\<close> is imported from
  \<^verbatim>\<open>@apestaartje/geometry\<close> and is not under the sources. The spec describes it as an
  affine matrix, composed of scalings and translations, that \<^verbatim>\<open>transformPoint\<close> applies to
  a logical point. The matrix has the six entries of a canvas transform,
  \<open>x' = a x + c y + e\<close> and \<open>y' = b x + d y + f\<close>; each method multiplies the current matrix
  on the right by the matrix of the operation, so that the operation called last is
  applied to a point first (the convention of the canvas, and the one under which the
  comments of \<^verbatim>\<open>updateTransform\<close> and the pixel positions given by the spec hold).
\<close>

record Matrix =
  m_a :: real
  m_b :: real
  m_c :: real
  m_d :: real
  m_e :: real
  m_f :: real

definition identity_matrix :: Matrix where
  "identity_matrix = \<lparr> m_a = 1, m_b = 0, m_c = 0, m_d = 1, m_e = 0, m_f = 0 \<rparr>"

definition scaling :: "real \<Rightarrow> real \<Rightarrow> Matrix" where
  "scaling sx sy = \<lparr> m_a = sx, m_b = 0, m_c = 0, m_d = sy, m_e = 0, m_f = 0 \<rparr>"

definition translation :: "real \<Rightarrow> real \<Rightarrow> Matrix" where
  "translation tx ty = \<lparr> m_a = 1, m_b = 0, m_c = 0, m_d = 1, m_e = tx, m_f = ty \<rparr>"

definition multiply :: "Matrix \<Rightarrow> Matrix \<Rightarrow> Matrix" where
  "multiply m n =
     \<lparr> m_a = m_a m * m_a n + m_c m * m_b n,
       m_b = m_b m * m_a n + m_d m * m_b n,
       m_c = m_a m * m_c n + m_c m * m_d n,
       m_d = m_b m * m_c n + m_d m * m_d n,
       m_e = m_a m * m_e n + m_c m * m_f n + m_e m,
       m_f = m_b m * m_e n + m_d m * m_f n + m_f m \<rparr>"

text \<open>The methods of the transform, as functions on its matrix.\<close>

definition identity :: "Matrix \<Rightarrow> Matrix" where
  "identity t = identity_matrix"

definition scale :: "real \<Rightarrow> real \<Rightarrow> Matrix \<Rightarrow> Matrix" where
  "scale sx sy t = multiply t (scaling sx sy)"

definition translate :: "real \<Rightarrow> real \<Rightarrow> Matrix \<Rightarrow> Matrix" where
  "translate tx ty t = multiply t (translation tx ty)"

definition transformPoint :: "Matrix \<Rightarrow> Point \<Rightarrow> Point" where
  "transformPoint t p =
     \<lparr> px = m_a t * px p + m_c t * py p + m_e t,
       py = m_b t * px p + m_d t * py p + m_f t \<rparr>"

subsection \<open>The canvas and the drawing primitives\<close>

text \<open>
  Modelled from the spec: the canvas (\<^verbatim>\<open>dom.element.Canvas\<close>) and the primitives
  \<^verbatim>\<open>line\<close> and \<^verbatim>\<open>text\<close> are imported and not under the sources. The spec gives them a
  side effect on the surface they are passed, and on nothing else. A canvas is the trace
  of the calls made on it, oldest first.
\<close>

datatype canvas_op =
    Clear
  | Line Point Point LineStyle
  | Text string Point TextStyle

type_synonym Canvas = "canvas_op list"

definition clear :: "Canvas \<Rightarrow> Canvas" where
  "clear cv = cv @ [Clear]"

definition line :: "Point \<Rightarrow> Point \<Rightarrow> LineStyle \<Rightarrow> Canvas \<Rightarrow> Canvas" where
  "line start stop style cv = cv @ [Line start stop style]"

definition text_at :: "string \<Rightarrow> Point \<Rightarrow> TextStyle \<Rightarrow> Canvas \<Rightarrow> Canvas" where
  "text_at str position style cv = cv @ [Text str position style]"

subsection \<open>The stepped range and the range test\<close>

text \<open>
  Modelled from the spec: \<^verbatim>\<open>array.iterator.range\<close> is imported from
  \<^verbatim>\<open>@apestaartje/array\<close> and is not under the sources. The spec: inclusive of the
  minimum, it steps forward while the value is at most the maximum. The loop need not
  end (a step that is not positive), so the result is optional: \<open>None\<close> is a loop that
  never ends.
\<close>

partial_function (option) iterator_range :: "real \<Rightarrow> real \<Rightarrow> real \<Rightarrow> real list option" where
  "iterator_range start stop step =
     (if start \<le> stop
      then Option.bind (iterator_range (start + step) stop step) (\<lambda>rest. Some (start # rest))
      else Some [])"

text \<open>
  Modelled from the spec: \<^verbatim>\<open>number.range.inRange\<close> is imported from
  \<^verbatim>\<open>@apestaartje/number\<close> and is not under the sources. The spec: the value lies within
  the range. Both bounds belong to the range, as in the test that the single-canvas
  variant writes out (\<^verbatim>\<open>min > 0 || max < 0\<close> for a zero outside the range).
\<close>

definition inRange :: "real \<Rightarrow> Range \<Rightarrow> bool" where
  "inRange v r \<longleftrightarrow> rmin r \<le> v \<and> v \<le> rmax r"


section \<open>The chart with two canvases (Graph.ts)\<close>

record Graph =
  g_background :: Canvas
  g_foreground :: Canvas
  g_size :: Size
  g_transform :: Matrix
  g_xRange :: Range
  g_yRange :: Range

definition updateTransform :: "Graph \<Rightarrow> Graph" where
  "updateTransform g =
     (let t0 = g_transform g;
          t1 = identity t0;
          t2 = scale 1 (- 1) t1;
          t3 = translate 0 (- height (g_size g)) t2;
          t4 = translate OFFSET OFFSET t3;
          t5 = scale
                 ((width (g_size g) - OFFSET * 2) / (rmax (g_xRange g) - rmin (g_xRange g)))
                 ((height (g_size g) - OFFSET * 2) / (rmax (g_yRange g) - rmin (g_yRange g)))
                 t4;
          t6 = translate (- rmin (g_xRange g)) (- rmin (g_yRange g)) t5
      in g\<lparr> g_transform := t6 \<rparr>)"

definition set_xRange :: "Range \<Rightarrow> Graph \<Rightarrow> Graph" where
  "set_xRange r g = updateTransform (g\<lparr> g_xRange := r \<rparr>)"

definition set_yRange :: "Range \<Rightarrow> Graph \<Rightarrow> Graph" where
  "set_yRange r g = updateTransform (g\<lparr> g_yRange := r \<rparr>)"

text \<open>
  The constructor: the field initialisers give both ranges \<open>[0, 0]\<close>, then the body
  creates the transform and the two empty canvases and sets the two ranges in turn.
\<close>

definition new_Graph :: "Size \<Rightarrow> Graph" where
  "new_Graph sz =
     (let g0 = \<lparr> g_background = [], g_foreground = [], g_size = sz,
                 g_transform = identity_matrix,
                 g_xRange = \<lparr> rmin = 0, rmax = 0 \<rparr>,
                 g_yRange = \<lparr> rmin = 0, rmax = 0 \<rparr> \<rparr>;
          g1 = set_xRange \<lparr> rmin = 0, rmax = width (g_size g0) \<rparr> g0
      in set_yRange \<lparr> rmin = 0, rmax = height (g_size g1) \<rparr> g1)"


subsection \<open>plot\<close>

text \<open>
  The loop of \<^verbatim>\<open>plot\<close> over the points, with the variable \<^verbatim>\<open>previous\<close> (undefined
  before the first point) and the canvas it draws on.
\<close>

fun plot_loop :: "Matrix \<Rightarrow> LineStyle \<Rightarrow> Point option \<Rightarrow> Point list \<Rightarrow> Canvas \<Rightarrow> Canvas" where
  "plot_loop t styling previous [] cv = cv"
| "plot_loop t styling previous (point # points) cv =
     plot_loop t styling (Some point) points
       (case previous of
          None \<Rightarrow> cv
        | Some prev \<Rightarrow> line (transformPoint t prev) (transformPoint t point) styling cv)"

definition plot :: "Point list \<Rightarrow> PartialLineStyle \<Rightarrow> Graph \<Rightarrow> Graph" where
  "plot points lineStyle g =
     (let styling = spreadLine (DEFAULT_LINE_STYLE\<lparr> strokeStyle := PLOT_LINE_COLOR \<rparr>) lineStyle;
          g1 = g\<lparr> g_foreground := clear (g_foreground g) \<rparr>
      in g1\<lparr> g_foreground :=
               plot_loop (g_transform g1) styling None points (g_foreground g1) \<rparr>)"

subsection \<open>Labels\<close>

text \<open>
  The conversion \<^verbatim>\<open>String(x)\<close> of a number to its text is a parameter, \<open>String_of\<close>.
  A loop over the stepped range that never ends gives no chart back (\<open>None\<close>).
\<close>

definition drawXLabels ::
    "(real \<Rightarrow> string) \<Rightarrow> real \<Rightarrow> PartialTextStyle \<Rightarrow> Graph \<Rightarrow> Graph option" where
  "drawXLabels String_of step textStyle g =
     (let styling = spreadText (DEFAULT_TEXT_STYLE\<lparr> textAlign := ''center'' \<rparr>) textStyle;
          y = (if inRange 0 (g_yRange g) then 0 else rmin (g_yRange g))
      in case iterator_range (rmin (g_xRange g)) (rmax (g_xRange g)) step of
           None \<Rightarrow> None
         | Some xs \<Rightarrow>
             Some (fold (\<lambda>x h.
                     let position = transformPoint (g_transform h) \<lparr> px = x, py = y \<rparr>
                     in h\<lparr> g_background :=
                            text_at (String_of x)
                              \<lparr> px = px position, py = py position + 15 \<rparr>
                              styling (g_background h) \<rparr>) xs g))"

definition drawYLabels ::
    "(real \<Rightarrow> string) \<Rightarrow> real \<Rightarrow> PartialTextStyle \<Rightarrow> Graph \<Rightarrow> Graph option" where
  "drawYLabels String_of step textStyle g =
     (let styling = spreadText DEFAULT_TEXT_STYLE textStyle;
          x = (if inRange 0 (g_xRange g) then 0 else rmin (g_xRange g))
      in case iterator_range (rmin (g_yRange g)) (rmax (g_yRange g)) step of
           None \<Rightarrow> None
         | Some ys \<Rightarrow>
             Some (fold (\<lambda>y h.
                     let point = transformPoint (g_transform h) \<lparr> px = x, py = y \<rparr>
                     in h\<lparr> g_background :=
                            text_at (String_of y)
                              \<lparr> px = px point - 5, py = py point + 5 \<rparr>
                              styling (g_background h) \<rparr>) ys g))"

subsection \<open>Grid and axes\<close>

definition drawGrid :: "real \<Rightarrow> real \<Rightarrow> PartialLineStyle \<Rightarrow> Graph \<Rightarrow> Graph option" where
  "drawGrid xStep yStep lineStyle g =
     (let styling = spreadLine (DEFAULT_LINE_STYLE\<lparr> strokeStyle := GRID_LINE_COLOR \<rparr>) lineStyle
      in case iterator_range (rmin (g_xRange g)) (rmax (g_xRange g)) xStep of
           None \<Rightarrow> None
         | Some xs \<Rightarrow>
             (let g1 = fold (\<lambda>x h.
                          h\<lparr> g_background :=
                               line (transformPoint (g_transform h) \<lparr> px = x, py = rmin (g_yRange h) \<rparr>)
                                    (transformPoint (g_transform h) \<lparr> px = x, py = rmax (g_yRange h) \<rparr>)
                                    styling (g_background h) \<rparr>) xs g
              in case iterator_range (rmin (g_yRange g1)) (rmax (g_yRange g1)) yStep of
                   None \<Rightarrow> None
                 | Some ys \<Rightarrow>
                     Some (fold (\<lambda>y h.
                             h\<lparr> g_background :=
                                  line (transformPoint (g_transform h) \<lparr> px = rmin (g_xRange h), py = y \<rparr>)
                                       (transformPoint (g_transform h) \<lparr> px = rmax (g_xRange h), py = y \<rparr>)
                                       styling (g_background h) \<rparr>) ys g1)))"

definition drawXAxis :: "PartialLineStyle \<Rightarrow> Graph \<Rightarrow> Graph" where
  "drawXAxis lineStyle g =
     (let styling = spreadLine
                      (DEFAULT_LINE_STYLE\<lparr> strokeStyle := AXIS_LINE_COLOR, lineWidth := 2 \<rparr>)
                      lineStyle;
          y = (if inRange 0 (g_yRange g) then 0 else rmin (g_yRange g))
      in g\<lparr> g_background :=
              line (transformPoint (g_transform g) \<lparr> px = rmin (g_xRange g), py = y \<rparr>)
                   (transformPoint (g_transform g) \<lparr> px = rmax (g_xRange g), py = y \<rparr>)
                   styling (g_background g) \<rparr>)"

definition drawYAxis :: "PartialLineStyle \<Rightarrow> Graph \<Rightarrow> Graph" where
  "drawYAxis lineStyle g =
     (let styling = spreadLine
                      (DEFAULT_LINE_STYLE\<lparr> strokeStyle := AXIS_LINE_COLOR, lineWidth := 2 \<rparr>)
                      lineStyle;
          x = (if inRange 0 (g_xRange g) then 0 else rmin (g_xRange g))
      in g\<lparr> g_background :=
              line (transformPoint (g_transform g) \<lparr> px = x, py = rmin (g_yRange g) \<rparr>)
                   (transformPoint (g_transform g) \<lparr> px = x, py = rmax (g_yRange g) \<rparr>)
                   styling (g_background g) \<rparr>)"


section \<open>The chart with one canvas (the older variant)\<close>

record SGraph =
  s_canvas :: Canvas
  s_size :: Size
  s_transform :: Matrix
  s_xRange :: Range
  s_yRange :: Range

definition s_updateTransform :: "SGraph \<Rightarrow> SGraph" where
  "s_updateTransform g =
     (let t0 = s_transform g;
          t1 = identity t0;
          t2 = scale 1 (- 1) t1;
          t3 = translate 0 (- height (s_size g)) t2;
          t4 = translate OFFSET OFFSET t3;
          t5 = scale
                 ((width (s_size g) - OFFSET * 2) / (rmax (s_xRange g) - rmin (s_xRange g)))
                 ((height (s_size g) - OFFSET * 2) / (rmax (s_yRange g) - rmin (s_yRange g)))
                 t4;
          t6 = translate (- rmin (s_xRange g)) (- rmin (s_yRange g)) t5
      in g\<lparr> s_transform := t6 \<rparr>)"

definition s_set_xRange :: "Range \<Rightarrow> SGraph \<Rightarrow> SGraph" where
  "s_set_xRange r g = s_updateTransform (g\<lparr> s_xRange := r \<rparr>)"

definition s_set_yRange :: "Range \<Rightarrow> SGraph \<Rightarrow> SGraph" where
  "s_set_yRange r g = s_updateTransform (g\<lparr> s_yRange := r \<rparr>)"

definition s_new_Graph :: "Size \<Rightarrow> SGraph" where
  "s_new_Graph sz =
     (let g0 = \<lparr> s_canvas = [], s_size = sz, s_transform = identity_matrix,
                 s_xRange = \<lparr> rmin = 0, rmax = 0 \<rparr>,
                 s_yRange = \<lparr> rmin = 0, rmax = 0 \<rparr> \<rparr>;
          g1 = s_set_xRange \<lparr> rmin = 0, rmax = width (s_size g0) \<rparr> g0
      in s_set_yRange \<lparr> rmin = 0, rmax = height (s_size g1) \<rparr> g1)"

subsection \<open>Drawing on the one canvas\<close>

text \<open>
  \<^verbatim>\<open>drawLine\<close> receives a complete style where it expects a partial one and spreads it
  over the default once more.
\<close>

definition as_partial :: "LineStyle \<Rightarrow> PartialLineStyle" where
  "as_partial st = \<lparr> strokeStyle_opt = Some (strokeStyle st), lineWidth_opt = Some (lineWidth st) \<rparr>"

definition s_drawLine :: "Point \<Rightarrow> Point \<Rightarrow> PartialLineStyle \<Rightarrow> SGraph \<Rightarrow> SGraph" where
  "s_drawLine start stop style g =
     (let styling = spreadLine DEFAULT_LINE_STYLE style
      in g\<lparr> s_canvas :=
              line (transformPoint (s_transform g) start) (transformPoint (s_transform g) stop)
                   styling (s_canvas g) \<rparr>)"

fun s_plot_loop :: "LineStyle \<Rightarrow> Point option \<Rightarrow> Point list \<Rightarrow> SGraph \<Rightarrow> SGraph" where
  "s_plot_loop styling previous [] g = g"
| "s_plot_loop styling previous (point # points) g =
     s_plot_loop styling (Some point) points
       (case previous of
          None \<Rightarrow> g
        | Some prev \<Rightarrow> s_drawLine prev point (as_partial styling) g)"

definition s_plot :: "Point list \<Rightarrow> PartialLineStyle \<Rightarrow> SGraph \<Rightarrow> SGraph" where
  "s_plot points lineStyle g =
     (let styling = spreadLine \<lparr> strokeStyle = ''#308c2c'', lineWidth = 1 \<rparr> lineStyle
      in s_plot_loop styling None points g)"


definition s_drawXAxis :: "PartialLineStyle \<Rightarrow> SGraph \<Rightarrow> SGraph" where
  "s_drawXAxis lineStyle g =
     (let styling = spreadLine \<lparr> strokeStyle = ''#FF0000'', lineWidth = 2 \<rparr> lineStyle;
          y = (if rmin (s_yRange g) > 0 \<or> rmax (s_yRange g) < 0 then rmin (s_yRange g) else 0)
      in s_drawLine \<lparr> px = rmin (s_xRange g), py = y \<rparr> \<lparr> px = rmax (s_xRange g), py = y \<rparr>
           (as_partial styling) g)"

definition s_drawYAxis :: "PartialLineStyle \<Rightarrow> SGraph \<Rightarrow> SGraph" where
  "s_drawYAxis lineStyle g =
     (let styling = spreadLine \<lparr> strokeStyle = ''#FF0000'', lineWidth = 2 \<rparr> lineStyle;
          x = (if rmin (s_xRange g) > 0 \<or> rmax (s_xRange g) < 0 then rmin (s_xRange g) else 0)
      in s_drawLine \<lparr> px = x, py = rmin (s_yRange g) \<rparr> \<lparr> px = x, py = rmax (s_yRange g) \<rparr>
           (as_partial styling) g)"


section \<open>The transform as the spec composes it\<close>

text \<open>
  The contract of the spec, in its words: the matrix is the composition, in order, of the
  identity, \<open>scale(1, -1)\<close>, \<open>translate(0, -height)\<close>, \<open>translate(OFFSET, OFFSET)\<close>, the
  scaling by the two quotients and \<open>translate(-xRange.min, -yRange.min)\<close>.
\<close>

definition recompute :: "Size \<Rightarrow> Range \<Rightarrow> Range \<Rightarrow> Matrix" where
  "recompute sz xr yr =
     multiply (multiply (multiply (multiply (multiply identity_matrix
       (scaling 1 (- 1)))
       (translation 0 (- height sz)))
       (translation 30 30))
       (scaling ((width sz - 2 * 30) / (rmax xr - rmin xr))
                ((height sz - 2 * 30) / (rmax yr - rmin yr))))
       (translation (- rmin xr) (- rmin yr))"

text \<open>
  The stepped range in the words of the spec: from the minimum forward by the step while
  the value is at most the maximum. For a positive step these are the values
  \<open>lo + i * step\<close> for \<open>i\<close> below the count of ticks.
\<close>

definition tick_count :: "real \<Rightarrow> real \<Rightarrow> real \<Rightarrow> nat" where
  "tick_count lo hi step = (if lo \<le> hi then nat \<lfloor>(hi - lo) / step\<rfloor> + 1 else 0)"

definition ticks :: "real \<Rightarrow> real \<Rightarrow> real \<Rightarrow> real list" where
  "ticks lo hi step = map (\<lambda>i. lo + real i * step) [0..<tick_count lo hi step]"

text \<open>
  The grid lines in the words of the spec: a full-height vertical line at \<open>x\<close> and a
  full-width horizontal line at \<open>y\<close>, in pixels.
\<close>

definition vertical_line :: "Matrix \<Rightarrow> Range \<Rightarrow> LineStyle \<Rightarrow> real \<Rightarrow> canvas_op" where
  "vertical_line t yr st x =
     Line (transformPoint t \<lparr> px = x, py = rmin yr \<rparr>) (transformPoint t \<lparr> px = x, py = rmax yr \<rparr>) st"

definition horizontal_line :: "Matrix \<Rightarrow> Range \<Rightarrow> LineStyle \<Rightarrow> real \<Rightarrow> canvas_op" where
  "horizontal_line t xr st y =
     Line (transformPoint t \<lparr> px = rmin xr, py = y \<rparr>) (transformPoint t \<lparr> px = rmax xr, py = y \<rparr>) st"

text \<open>
  The segments of a plot in the words of the spec: one line from each point, transformed,
  to the next one, transformed, in the order of the sequence.
\<close>

definition segments :: "Matrix \<Rightarrow> LineStyle \<Rightarrow> Point list \<Rightarrow> canvas_op list" where
  "segments t st pts =
     map (\<lambda>i. Line (transformPoint t (pts ! i)) (transformPoint t (pts ! Suc i)) st)
       [0..<length pts - 1]"

text \<open>What the drawing operations are to leave alone: the ranges, the size, the matrix.\<close>

definition chart_state :: "Graph \<Rightarrow> Range \<times> Range \<times> Size \<times> Matrix" where
  "chart_state g = (g_xRange g, g_yRange g, g_size g, g_transform g)"


section \<open>JavaScript numbers\<close>

text \<open>
  A JavaScript number: a finite value (\<open>Num 0\<close> is the positive zero), the negative zero,
  the two infinities, or NaN. The operations below are those of IEEE-754 binary64 with
  rounding to nearest, ties to even; none of them raises an error.
\<close>

datatype number = Num real | NegZero | PosInf | NegInf | NaN

text \<open>
  Rounding a real number to the nearest double. The exponent is found by halving or
  doubling the number until it lies between 1 and 2; it is kept within \<open>-1022\<close> (below,
  the doubles are subnormal and equally spaced) and 1024 (overflow). The quantum is the
  distance between neighbouring doubles at that exponent.
\<close>

definition round_half_even :: "real \<Rightarrow> int" where
  "round_half_even t =
     (let n = \<lfloor>t\<rfloor>; r = t - of_int n
      in if r < 1 / 2 then n else if 1 / 2 < r then n + 1 else if even n then n else n + 1)"

function halvings :: "real \<Rightarrow> nat \<Rightarrow> nat" where
  "halvings x k = (if 2 \<le> x \<and> k < 1024 then halvings (x / 2) (Suc k) else k)"
  by pat_completeness auto
termination
  by (relation "measure (\<lambda>(x, k). 1024 - k)") auto

function doublings :: "real \<Rightarrow> nat \<Rightarrow> nat" where
  "doublings x k = (if x < 1 \<and> k < 1022 then doublings (2 * x) (Suc k) else k)"
  by pat_completeness auto
termination
  by (relation "measure (\<lambda>(x, k). 1022 - k)") auto

definition exponent :: "real \<Rightarrow> int" where
  "exponent x = (if 1 \<le> x then int (halvings x 0) else - int (doublings x 0))"

definition quantum :: "real \<Rightarrow> real" where
  "quantum x = 2 powi (exponent \<bar>x\<bar> - 52)"

definition nearest :: "real \<Rightarrow> real" where
  "nearest x = of_int (round_half_even (x / quantum x)) * quantum x"

definition round_double :: "real \<Rightarrow> number" where
  "round_double x =
     (if x = 0 then Num 0
      else if 2 ^ 1024 \<le> \<bar>nearest x\<bar> then (if 0 < x then PosInf else NegInf)
      else if nearest x = 0 then (if 0 < x then Num 0 else NegZero)
      else Num (nearest x))"

text \<open>
  The classes of numbers, the value of a finite number (0 for the others, where it is
  not used) and the sign bit.
\<close>

definition is_nan :: "number \<Rightarrow> bool" where
  "is_nan a \<longleftrightarrow> a = NaN"

definition is_inf :: "number \<Rightarrow> bool" where
  "is_inf a \<longleftrightarrow> a = PosInf \<or> a = NegInf"

definition is_zero :: "number \<Rightarrow> bool" where
  "is_zero a \<longleftrightarrow> a = Num 0 \<or> a = NegZero"

definition non_finite :: "number \<Rightarrow> bool" where
  "non_finite a \<longleftrightarrow> a = NaN \<or> a = PosInf \<or> a = NegInf"

fun val :: "number \<Rightarrow> real" where
  "val (Num x) = x"
| "val NegZero = 0"
| "val PosInf = 0"
| "val NegInf = 0"
| "val NaN = 0"

fun sign_bit :: "number \<Rightarrow> bool" where
  "sign_bit (Num x) = (x < 0)"
| "sign_bit NegZero = True"
| "sign_bit PosInf = False"
| "sign_bit NegInf = True"
| "sign_bit NaN = False"

definition signed_zero :: "bool \<Rightarrow> number" where
  "signed_zero negative = (if negative then NegZero else Num 0)"

definition signed_inf :: "bool \<Rightarrow> number" where
  "signed_inf negative = (if negative then NegInf else PosInf)"

text \<open>
  The arithmetic and the comparisons of JavaScript on numbers, written \<open>+\<close>, \<open>-\<close>, \<open>*\<close>, \<open>/\<close>,
  \<open>\<le>\<close> and \<open><\<close>. A division by zero gives an infinity or NaN; a comparison with NaN is
  false.
\<close>

instantiation number :: "{zero, one, plus, uminus, minus, times, divide, ord}"
begin

definition zero_number :: number where
  "zero_number = Num 0"

definition one_number :: number where
  "one_number = Num 1"

definition plus_number :: "number \<Rightarrow> number \<Rightarrow> number" where
  "plus_number a b =
     (if is_nan a \<or> is_nan b then NaN
      else if is_inf a then (if is_inf b \<and> a \<noteq> b then NaN else a)
      else if is_inf b then b
      else if a = NegZero \<and> b = NegZero then NegZero
      else round_double (val a + val b))"

definition uminus_number :: "number \<Rightarrow> number" where
  "uminus_number a =
     (case a of
        Num x \<Rightarrow> (if x = 0 then NegZero else Num (- x))
      | NegZero \<Rightarrow> Num 0
      | PosInf \<Rightarrow> NegInf
      | NegInf \<Rightarrow> PosInf
      | NaN \<Rightarrow> NaN)"

definition minus_number :: "number \<Rightarrow> number \<Rightarrow> number" where
  "minus_number a b = a + (- b)"

definition times_number :: "number \<Rightarrow> number \<Rightarrow> number" where
  "times_number a b =
     (if is_nan a \<or> is_nan b then NaN
      else if is_inf a \<or> is_inf b
        then (if is_zero a \<or> is_zero b then NaN else signed_inf (sign_bit a \<noteq> sign_bit b))
      else if is_zero a \<or> is_zero b then signed_zero (sign_bit a \<noteq> sign_bit b)
      else round_double (val a * val b))"

definition divide_number :: "number \<Rightarrow> number \<Rightarrow> number" where
  "divide_number a b =
     (if is_nan a \<or> is_nan b then NaN
      else if is_inf a
        then (if is_inf b then NaN else signed_inf (sign_bit a \<noteq> sign_bit b))
      else if is_inf b then signed_zero (sign_bit a \<noteq> sign_bit b)
      else if is_zero b
        then (if is_zero a then NaN else signed_inf (sign_bit a \<noteq> sign_bit b))
      else if is_zero a then signed_zero (sign_bit a \<noteq> sign_bit b)
      else round_double (val a / val b))"

definition less_eq_number :: "number \<Rightarrow> number \<Rightarrow> bool" where
  "less_eq_number a b \<longleftrightarrow>
     \<not> is_nan a \<and> \<not> is_nan b \<and>
     (a = NegInf \<or> b = PosInf \<or> (\<not> is_inf a \<and> \<not> is_inf b \<and> val a \<le> val b))"

definition less_number :: "number \<Rightarrow> number \<Rightarrow> bool" where
  "less_number a b \<longleftrightarrow>
     \<not> is_nan a \<and> \<not> is_nan b \<and>
     ((a = NegInf \<and> b \<noteq> NegInf) \<or> (b = PosInf \<and> a \<noteq> PosInf)
      \<or> (\<not> is_inf a \<and> \<not> is_inf b \<and> val a < val b))"

instance ..

end

instantiation number :: inverse
begin

definition inverse_number :: "number \<Rightarrow> number" where
  "inverse_number a = divide (Num 1) a"

instance ..

end

subsection \<open>The chart with two canvases, on doubles\<close>

text \<open>
  The same chart (Graph.ts) with the numbers of JavaScript in place of the reals, every
  name prefixed with \<open>f\<close>. An operation of the chart returns \<open>Inr\<close> with the chart, or \<open>Inl\<close>
  with the error it throws; Graph.ts has no \<^verbatim>\<open>throw\<close> and the arithmetic of numbers raises
  nothing, so no definition below has an \<open>Inl\<close> of its own. The grid and the labels, whose
  stepped range need not end, return an option as before.

  Modelled from the spec: the transform (\<open>f_Matrix\<close> and its methods), the canvas with
  the primitives \<^verbatim>\<open>line\<close> and \<^verbatim>\<open>text\<close>, the stepped range and the range test are the
  imported collaborators modelled above, with each arithmetic operation rounded.
\<close>

record f_Point =
  fx :: number
  fy :: number

record f_Range =
  fmin :: number
  fmax :: number

record f_Size =
  fwidth :: number
  fheight :: number

record f_LineStyle =
  f_strokeStyle :: string
  f_lineWidth :: number

record f_PartialLineStyle =
  f_strokeStyle_opt :: "string option"
  f_lineWidth_opt :: "number option"

definition f_spreadLine :: "f_LineStyle \<Rightarrow> f_PartialLineStyle \<Rightarrow> f_LineStyle" where
  "f_spreadLine base ov =
     \<lparr> f_strokeStyle = (case f_strokeStyle_opt ov of None \<Rightarrow> f_strokeStyle base | Some s \<Rightarrow> s),
       f_lineWidth = (case f_lineWidth_opt ov of None \<Rightarrow> f_lineWidth base | Some w \<Rightarrow> w) \<rparr>"

definition f_OFFSET :: number where
  "f_OFFSET = Num 30"

definition f_DEFAULT_LINE_STYLE :: f_LineStyle where
  "f_DEFAULT_LINE_STYLE = \<lparr> f_strokeStyle = ''#000000'', f_lineWidth = Num 1 \<rparr>"

record f_Matrix =
  fm_a :: number
  fm_b :: number
  fm_c :: number
  fm_d :: number
  fm_e :: number
  fm_f :: number

definition f_identity_matrix :: f_Matrix where
  "f_identity_matrix =
     \<lparr> fm_a = Num 1, fm_b = Num 0, fm_c = Num 0, fm_d = Num 1, fm_e = Num 0, fm_f = Num 0 \<rparr>"

definition f_scaling :: "number \<Rightarrow> number \<Rightarrow> f_Matrix" where
  "f_scaling sx sy =
     \<lparr> fm_a = sx, fm_b = Num 0, fm_c = Num 0, fm_d = sy, fm_e = Num 0, fm_f = Num 0 \<rparr>"

definition f_translation :: "number \<Rightarrow> number \<Rightarrow> f_Matrix" where
  "f_translation tx ty =
     \<lparr> fm_a = Num 1, fm_b = Num 0, fm_c = Num 0, fm_d = Num 1, fm_e = tx, fm_f = ty \<rparr>"

definition f_multiply :: "f_Matrix \<Rightarrow> f_Matrix \<Rightarrow> f_Matrix" where
  "f_multiply m n =
     \<lparr> fm_a = fm_a m * fm_a n + fm_c m * fm_b n,
       fm_b = fm_b m * fm_a n + fm_d m * fm_b n,
       fm_c = fm_a m * fm_c n + fm_c m * fm_d n,
       fm_d = fm_b m * fm_c n + fm_d m * fm_d n,
       fm_e = fm_a m * fm_e n + fm_c m * fm_f n + fm_e m,
       fm_f = fm_b m * fm_e n + fm_d m * fm_f n + fm_f m \<rparr>"

definition f_identity :: "f_Matrix \<Rightarrow> f_Matrix" where
  "f_identity t = f_identity_matrix"

definition f_scale :: "number \<Rightarrow> number \<Rightarrow> f_Matrix \<Rightarrow> f_Matrix" where
  "f_scale sx sy t = f_multiply t (f_scaling sx sy)"

definition f_translate :: "number \<Rightarrow> number \<Rightarrow> f_Matrix \<Rightarrow> f_Matrix" where
  "f_translate tx ty t = f_multiply t (f_translation tx ty)"

definition f_transformPoint :: "f_Matrix \<Rightarrow> f_Point \<Rightarrow> f_Point" where
  "f_transformPoint t p =
     \<lparr> fx = fm_a t * fx p + fm_c t * fy p + fm_e t,
       fy = fm_b t * fx p + fm_d t * fy p + fm_f t \<rparr>"

datatype f_canvas_op =
    F_Clear
  | F_Line f_Point f_Point f_LineStyle
  | F_Text string f_Point TextStyle

type_synonym f_Canvas = "f_canvas_op list"

definition f_clear :: "f_Canvas \<Rightarrow> f_Canvas" where
  "f_clear cv = cv @ [F_Clear]"

definition f_line :: "f_Point \<Rightarrow> f_Point \<Rightarrow> f_LineStyle \<Rightarrow> f_Canvas \<Rightarrow> f_Canvas" where
  "f_line start stop style cv = cv @ [F_Line start stop style]"

definition f_text_at :: "string \<Rightarrow> f_Point \<Rightarrow> TextStyle \<Rightarrow> f_Canvas \<Rightarrow> f_Canvas" where
  "f_text_at str position style cv = cv @ [F_Text str position style]"

partial_function (option) f_iterator_range :: "number \<Rightarrow> number \<Rightarrow> number \<Rightarrow> number list option" where
  "f_iterator_range start stop step =
     (if start \<le> stop
      then Option.bind (f_iterator_range (start + step) stop step) (\<lambda>rest. Some (start # rest))
      else Some [])"

definition f_inRange :: "number \<Rightarrow> f_Range \<Rightarrow> bool" where
  "f_inRange v r \<longleftrightarrow> fmin r \<le> v \<and> v \<le> fmax r"

datatype js_error = TypeError | RangeError

record f_Graph =
  f_background :: f_Canvas
  f_foreground :: f_Canvas
  f_size :: f_Size
  f_transform :: f_Matrix
  f_xRange :: f_Range
  f_yRange :: f_Range

definition f_updateTransform :: "f_Graph \<Rightarrow> f_Graph" where
  "f_updateTransform g =
     (let t0 = f_transform g;
          t1 = f_identity t0;
          t2 = f_scale (Num 1) (- Num 1) t1;
          t3 = f_translate (Num 0) (- fheight (f_size g)) t2;
          t4 = f_translate f_OFFSET f_OFFSET t3;
          t5 = f_scale
                 ((fwidth (f_size g) - f_OFFSET * Num 2) / (fmax (f_xRange g) - fmin (f_xRange g)))
                 ((fheight (f_size g) - f_OFFSET * Num 2) / (fmax (f_yRange g) - fmin (f_yRange g)))
                 t4;
          t6 = f_translate (- fmin (f_xRange g)) (- fmin (f_yRange g)) t5
      in g\<lparr> f_transform := t6 \<rparr>)"

definition f_set_xRange :: "f_Range \<Rightarrow> f_Graph \<Rightarrow> js_error + f_Graph" where
  "f_set_xRange r g = Inr (f_updateTransform (g\<lparr> f_xRange := r \<rparr>))"

definition f_set_yRange :: "f_Range \<Rightarrow> f_Graph \<Rightarrow> js_error + f_Graph" where
  "f_set_yRange r g = Inr (f_updateTransform (g\<lparr> f_yRange := r \<rparr>))"


fun f_plot_loop ::
    "f_Matrix \<Rightarrow> f_LineStyle \<Rightarrow> f_Point option \<Rightarrow> f_Point list \<Rightarrow> f_Canvas \<Rightarrow> f_Canvas" where
  "f_plot_loop t styling previous [] cv = cv"
| "f_plot_loop t styling previous (point # points) cv =
     f_plot_loop t styling (Some point) points
       (case previous of
          None \<Rightarrow> cv
        | Some prev \<Rightarrow> f_line (f_transformPoint t prev) (f_transformPoint t point) styling cv)"

definition f_plot :: "f_Point list \<Rightarrow> f_PartialLineStyle \<Rightarrow> f_Graph \<Rightarrow> js_error + f_Graph" where
  "f_plot points lineStyle g =
     (let styling = f_spreadLine (f_DEFAULT_LINE_STYLE\<lparr> f_strokeStyle := PLOT_LINE_COLOR \<rparr>) lineStyle;
          g1 = g\<lparr> f_foreground := f_clear (f_foreground g) \<rparr>
      in Inr (g1\<lparr> f_foreground :=
               f_plot_loop (f_transform g1) styling None points (f_foreground g1) \<rparr>))"

definition f_drawXLabels ::
    "(number \<Rightarrow> string) \<Rightarrow> number \<Rightarrow> PartialTextStyle \<Rightarrow> f_Graph \<Rightarrow> (js_error + f_Graph) option" where
  "f_drawXLabels String_of step textStyle g =
     (let styling = spreadText (DEFAULT_TEXT_STYLE\<lparr> textAlign := ''center'' \<rparr>) textStyle;
          y = (if f_inRange (Num 0) (f_yRange g) then Num 0 else fmin (f_yRange g))
      in case f_iterator_range (fmin (f_xRange g)) (fmax (f_xRange g)) step of
           None \<Rightarrow> None
         | Some xs \<Rightarrow>
             Some (Inr (fold (\<lambda>x h.
                     let position = f_transformPoint (f_transform h) \<lparr> fx = x, fy = y \<rparr>
                     in h\<lparr> f_background :=
                            f_text_at (String_of x)
                              \<lparr> fx = fx position, fy = fy position + Num 15 \<rparr>
                              styling (f_background h) \<rparr>) xs g)))"

definition f_drawYLabels ::
    "(number \<Rightarrow> string) \<Rightarrow> number \<Rightarrow> PartialTextStyle \<Rightarrow> f_Graph \<Rightarrow> (js_error + f_Graph) option" where
  "f_drawYLabels String_of step textStyle g =
     (let styling = spreadText DEFAULT_TEXT_STYLE textStyle;
          x = (if f_inRange (Num 0) (f_xRange g) then Num 0 else fmin (f_xRange g))
      in case f_iterator_range (fmin (f_yRange g)) (fmax (f_yRange g)) step of
           None \<Rightarrow> None
         | Some ys \<Rightarrow>
             Some (Inr (fold (\<lambda>y h.
                     let point = f_transformPoint (f_transform h) \<lparr> fx = x, fy = y \<rparr>
                     in h\<lparr> f_background :=
                            f_text_at (String_of y)
                              \<lparr> fx = fx point - Num 5, fy = fy point + Num 5 \<rparr>
                              styling (f_background h) \<rparr>) ys g)))"

definition f_drawGrid ::
    "number \<Rightarrow> number \<Rightarrow> f_PartialLineStyle \<Rightarrow> f_Graph \<Rightarrow> (js_error + f_Graph) option" where
  "f_drawGrid xStep yStep lineStyle g =
     (let styling = f_spreadLine (f_DEFAULT_LINE_STYLE\<lparr> f_strokeStyle := GRID_LINE_COLOR \<rparr>) lineStyle
      in case f_iterator_range (fmin (f_xRange g)) (fmax (f_xRange g)) xStep of
           None \<Rightarrow> None
         | Some xs \<Rightarrow>
             (let g1 = fold (\<lambda>x h.
                          h\<lparr> f_background :=
                               f_line (f_transformPoint (f_transform h) \<lparr> fx = x, fy = fmin (f_yRange h) \<rparr>)
                                      (f_transformPoint (f_transform h) \<lparr> fx = x, fy = fmax (f_yRange h) \<rparr>)
                                      styling (f_background h) \<rparr>) xs g
              in case f_iterator_range (fmin (f_yRange g1)) (fmax (f_yRange g1)) yStep of
                   None \<Rightarrow> None
                 | Some ys \<Rightarrow>
                     Some (Inr (fold (\<lambda>y h.
                             h\<lparr> f_background :=
                                  f_line (f_transformPoint (f_transform h) \<lparr> fx = fmin (f_xRange h), fy = y \<rparr>)
                                         (f_transformPoint (f_transform h) \<lparr> fx = fmax (f_xRange h), fy = y \<rparr>)
                                         styling (f_background h) \<rparr>) ys g1))))"

definition f_drawXAxis :: "f_PartialLineStyle \<Rightarrow> f_Graph \<Rightarrow> js_error + f_Graph" where
  "f_drawXAxis lineStyle g =
     (let styling = f_spreadLine
                      (f_DEFAULT_LINE_STYLE\<lparr> f_strokeStyle := AXIS_LINE_COLOR, f_lineWidth := Num 2 \<rparr>)
                      lineStyle;
          y = (if f_inRange (Num 0) (f_yRange g) then Num 0 else fmin (f_yRange g))
      in Inr (g\<lparr> f_background :=
              f_line (f_transformPoint (f_transform g) \<lparr> fx = fmin (f_xRange g), fy = y \<rparr>)
                     (f_transformPoint (f_transform g) \<lparr> fx = fmax (f_xRange g), fy = y \<rparr>)
                     styling (f_background g) \<rparr>))"

definition f_drawYAxis :: "f_PartialLineStyle \<Rightarrow> f_Graph \<Rightarrow> js_error + f_Graph" where
  "f_drawYAxis lineStyle g =
     (let styling = f_spreadLine
                      (f_DEFAULT_LINE_STYLE\<lparr> f_strokeStyle := AXIS_LINE_COLOR, f_lineWidth := Num 2 \<rparr>)
                      lineStyle;
          x = (if f_inRange (Num 0) (f_xRange g) then Num 0 else fmin (f_xRange g))
      in Inr (g\<lparr> f_background :=
              f_line (f_transformPoint (f_transform g) \<lparr> fx = x, fy = fmin (f_yRange g) \<rparr>)
                     (f_transformPoint (f_transform g) \<lparr> fx = x, fy = fmax (f_yRange g) \<rparr>)
                     styling (f_background g) \<rparr>))"

text \<open>The matrix of the spec's contract, on doubles.\<close>

definition f_recompute :: "f_Size \<Rightarrow> f_Range \<Rightarrow> f_Range \<Rightarrow> f_Matrix" where
  "f_recompute sz xr yr =
     f_translate (- fmin xr) (- fmin yr)
       (f_scale ((fwidth sz - f_OFFSET * Num 2) / (fmax xr - fmin xr))
                ((fheight sz - f_OFFSET * Num 2) / (fmax yr - fmin yr))
          (f_translate f_OFFSET f_OFFSET
             (f_translate (Num 0) (- fheight sz)
                (f_scale (Num 1) (- Num 1) f_identity_matrix))))"



section \<open>The transform after a range is set\<close>

lemma updateTransform_recompute:
  "g_transform (updateTransform g) = recompute (g_size g) (g_xRange g) (g_yRange g)"
  by (simp add: updateTransform_def recompute_def identity_def scale_def translate_def
      OFFSET_def Let_def mult.commute)

lemma s_updateTransform_recompute:
  "s_transform (s_updateTransform g) = recompute (s_size g) (s_xRange g) (s_yRange g)"
  by (simp add: s_updateTransform_def recompute_def identity_def scale_def translate_def
      OFFSET_def Let_def mult.commute)

lemma updateTransform_frame:
  "g_size (updateTransform g) = g_size g"
  "g_xRange (updateTransform g) = g_xRange g"
  "g_yRange (updateTransform g) = g_yRange g"
  "g_background (updateTransform g) = g_background g"
  "g_foreground (updateTransform g) = g_foreground g"
  by (simp_all add: updateTransform_def Let_def)

lemma s_updateTransform_frame:
  "s_size (s_updateTransform g) = s_size g"
  "s_xRange (s_updateTransform g) = s_xRange g"
  "s_yRange (s_updateTransform g) = s_yRange g"
  "s_canvas (s_updateTransform g) = s_canvas g"
  by (simp_all add: s_updateTransform_def Let_def)

text \<open>
  C1. After either range is set, in either variant, the matrix of the chart is the
  composition of the spec, in its order, for every size, every pair of ranges and
  whatever the matrix was before: the identity, then \<open>scale(1, -1)\<close>, then
  \<open>translate(0, -height)\<close>, then \<open>translate(30, 30)\<close>, then the scaling by
  \<open>(width - 60) / (xmax - xmin)\<close> and \<open>(height - 60) / (ymax - ymin)\<close>, then
  \<open>translate(-xmin, -ymin)\<close>.
\<close>

theorem C1_transform_is_composition:
  "g_transform (set_xRange r g) = recompute (g_size g) r (g_yRange g)
   \<and> g_transform (set_yRange r g) = recompute (g_size g) (g_xRange g) r
   \<and> s_transform (s_set_xRange r sg) = recompute (s_size sg) r (s_yRange sg)
   \<and> s_transform (s_set_yRange r sg) = recompute (s_size sg) (s_xRange sg) r"
  by (simp add: set_xRange_def set_yRange_def s_set_xRange_def s_set_yRange_def
      updateTransform_recompute s_updateTransform_recompute)

section \<open>The default ranges\<close>

lemma new_Graph_fields:
  "g_size (new_Graph sz) = sz"
  "g_xRange (new_Graph sz) = \<lparr> rmin = 0, rmax = width sz \<rparr>"
  "g_yRange (new_Graph sz) = \<lparr> rmin = 0, rmax = height sz \<rparr>"
  "g_background (new_Graph sz) = []"
  "g_foreground (new_Graph sz) = []"
  "g_transform (new_Graph sz) =
     recompute sz \<lparr> rmin = 0, rmax = width sz \<rparr> \<lparr> rmin = 0, rmax = height sz \<rparr>"
  by (simp_all add: new_Graph_def set_xRange_def set_yRange_def Let_def
      updateTransform_frame updateTransform_recompute)


section \<open>The stepped range\<close>

lemma tick_count_step:
  assumes "0 < s" "a \<le> b"
  shows "tick_count a b s = Suc (tick_count (a + s) b s)"
proof (cases "a + s \<le> b")
  case True
  have "(b - a) / s = (b - (a + s)) / s + 1"
    using assms by (simp add: field_simps)
  moreover have "0 \<le> (b - (a + s)) / s" using True assms by simp
  ultimately show ?thesis using True assms
    by (simp add: tick_count_def nat_add_distrib)
next
  case False
  then have "(b - a) / s < 1" using assms by (simp add: field_simps)
  moreover have "0 \<le> (b - a) / s" using assms by simp
  ultimately have "\<lfloor>(b - a) / s\<rfloor> = 0" by linarith
  then show ?thesis using False assms by (simp add: tick_count_def)
qed

lemma ticks_step:
  assumes "0 < s" "a \<le> b"
  shows "ticks a b s = a # ticks (a + s) b s"
proof -
  have "map (\<lambda>i. a + real i * s) [0..<Suc n] = a # map (\<lambda>i. a + s + real i * s) [0..<n]" for n
    by (simp add: upt_conv_Cons map_Suc_upt[symmetric] algebra_simps del: upt_Suc)
  then show ?thesis
    unfolding ticks_def tick_count_step[OF assms] by simp
qed

lemma iterator_range_ticks_aux:
  "0 < s \<Longrightarrow> tick_count a b s = n \<Longrightarrow> iterator_range a b s = Some (ticks a b s)"
proof (induction n arbitrary: a)
  case 0
  then have "\<not> a \<le> b" by (simp add: tick_count_def split: if_splits)
  then show ?case
    by (subst iterator_range.simps) (simp add: ticks_def tick_count_def)
next
  case (Suc n)
  then have le: "a \<le> b" by (simp add: tick_count_def split: if_splits)
  have "tick_count (a + s) b s = n"
    using Suc.prems tick_count_step[OF Suc.prems(1) le] by simp
  then have "iterator_range (a + s) b s = Some (ticks (a + s) b s)"
    using Suc.IH Suc.prems(1) by simp
  then show ?case
    using le by (subst iterator_range.simps) (simp add: ticks_step[OF Suc.prems(1) le])
qed

lemma iterator_range_ticks:
  "0 < s \<Longrightarrow> iterator_range a b s = Some (ticks a b s)"
  by (rule iterator_range_ticks_aux) simp_all






section \<open>Grid\<close>

lemma fold_vertical:
  "fold (\<lambda>x h. h\<lparr> g_background :=
           line (transformPoint (g_transform h) \<lparr> px = x, py = rmin (g_yRange h) \<rparr>)
                (transformPoint (g_transform h) \<lparr> px = x, py = rmax (g_yRange h) \<rparr>)
                st (g_background h) \<rparr>) xs g
   = g\<lparr> g_background := g_background g @ map (vertical_line (g_transform g) (g_yRange g) st) xs \<rparr>"
  by (induction xs arbitrary: g) (simp_all add: line_def vertical_line_def)

lemma fold_horizontal:
  "fold (\<lambda>y h. h\<lparr> g_background :=
           line (transformPoint (g_transform h) \<lparr> px = rmin (g_xRange h), py = y \<rparr>)
                (transformPoint (g_transform h) \<lparr> px = rmax (g_xRange h), py = y \<rparr>)
                st (g_background h) \<rparr>) ys g
   = g\<lparr> g_background := g_background g @ map (horizontal_line (g_transform g) (g_xRange g) st) ys \<rparr>"
  by (induction ys arbitrary: g) (simp_all add: line_def horizontal_line_def)



lemma drawGrid_Some:
  assumes "iterator_range (rmin (g_xRange g)) (rmax (g_xRange g)) xStep = Some xs"
    and "iterator_range (rmin (g_yRange g)) (rmax (g_yRange g)) yStep = Some ys"
  shows "drawGrid xStep yStep ls g =
     Some (g\<lparr> g_background := g_background g
        @ map (vertical_line (g_transform g) (g_yRange g)
                 (spreadLine (DEFAULT_LINE_STYLE\<lparr> strokeStyle := GRID_LINE_COLOR \<rparr>) ls)) xs
        @ map (horizontal_line (g_transform g) (g_xRange g)
                 (spreadLine (DEFAULT_LINE_STYLE\<lparr> strokeStyle := GRID_LINE_COLOR \<rparr>) ls)) ys \<rparr>)"
  using assms by (simp add: drawGrid_def Let_def fold_vertical fold_horizontal)






section \<open>Plot\<close>

lemma plot_loop_eq:
  "plot_loop t st prev pts cv =
     cv @ map (\<lambda>(p, q). Line (transformPoint t p) (transformPoint t q) st)
            (case prev of None \<Rightarrow> zip pts (tl pts) | Some p \<Rightarrow> zip (p # pts) pts)"
proof (induction pts arbitrary: prev cv)
  case Nil
  then show ?case by (simp split: option.splits)
next
  case (Cons x xs)
  then show ?case by (simp add: line_def split: option.splits)
qed

lemma zip_tl_nth:
  "zip pts (tl pts) = map (\<lambda>i. (pts ! i, pts ! Suc i)) [0..<length pts - 1]"
  by (rule nth_equalityI) (simp_all add: nth_tl)

lemma plot_loop_segments:
  "plot_loop t st None pts cv = cv @ segments t st pts"
  by (simp add: plot_loop_eq zip_tl_nth segments_def comp_def)

lemma spreadLine_as_partial:
  "spreadLine base (as_partial st) = st"
  by (cases st) (simp add: spreadLine_def as_partial_def)

lemma s_plot_loop_eq:
  "s_plot_loop st prev pts g =
     g\<lparr> s_canvas := plot_loop (s_transform g) st prev pts (s_canvas g) \<rparr>"
proof (induction pts arbitrary: prev g)
  case Nil
  then show ?case by simp
next
  case (Cons x xs)
  then show ?case
    by (simp add: s_drawLine_def spreadLine_as_partial split: option.splits)
qed

lemma plot_eq:
  "plot pts ls g =
     g\<lparr> g_foreground := g_foreground g @ Clear #
          segments (g_transform g)
            (spreadLine (DEFAULT_LINE_STYLE\<lparr> strokeStyle := PLOT_LINE_COLOR \<rparr>) ls) pts \<rparr>"
  by (simp add: plot_def Let_def clear_def plot_loop_segments)

lemma s_plot_eq:
  "s_plot pts ls g =
     g\<lparr> s_canvas := s_canvas g @
          segments (s_transform g)
            (spreadLine \<lparr> strokeStyle = ''#308c2c'', lineWidth = 1 \<rparr> ls) pts \<rparr>"
  by (simp add: s_plot_def Let_def s_plot_loop_eq plot_loop_segments)

text \<open>
  C3. \<^verbatim>\<open>plot\<close> of \<open>N\<close> points draws, in both variants, the \<open>N - 1\<close> segments from each
  transformed point to the transformed next one, in the order of the sequence, and
  nothing else but the clearing of the foreground; for no point and for one point it
  draws no segment.
\<close>

theorem C3_plot_segments:
  "g_foreground (plot pts ls g) =
     g_foreground g @ Clear #
       map (\<lambda>i. Line (transformPoint (g_transform g) (pts ! i))
                     (transformPoint (g_transform g) (pts ! Suc i))
                     (spreadLine (DEFAULT_LINE_STYLE\<lparr> strokeStyle := PLOT_LINE_COLOR \<rparr>) ls))
         [0..<length pts - 1]
   \<and> s_canvas (s_plot pts ls sg) =
     s_canvas sg @
       map (\<lambda>i. Line (transformPoint (s_transform sg) (pts ! i))
                     (transformPoint (s_transform sg) (pts ! Suc i))
                     (spreadLine \<lparr> strokeStyle = ''#308c2c'', lineWidth = 1 \<rparr> ls))
         [0..<length pts - 1]
   \<and> length (segments t st pts) = length pts - 1
   \<and> g_foreground (plot [] ls g) = g_foreground g @ [Clear]
   \<and> g_foreground (plot [p] ls g) = g_foreground g @ [Clear]
   \<and> s_canvas (s_plot [] ls sg) = s_canvas sg
   \<and> s_canvas (s_plot [p] ls sg) = s_canvas sg"
  by (simp add: plot_eq s_plot_eq segments_def)

text \<open>
  C7 (as amended). In the chart with two canvases \<^verbatim>\<open>plot\<close> changes the foreground canvas
  and no other part of the chart: on the foreground it first clears and then draws its
  segments, none of which is a clearing; the background canvas is as it was. The chart
  with one canvas has no foreground: its \<^verbatim>\<open>plot\<close> does not clear, and draws its segments
  onto the one canvas, after whatever that canvas holds.
\<close>

theorem C7_plot_foreground_only:
  "plot pts ls g =
     g\<lparr> g_foreground := g_foreground g @ Clear #
          segments (g_transform g)
            (spreadLine (DEFAULT_LINE_STYLE\<lparr> strokeStyle := PLOT_LINE_COLOR \<rparr>) ls) pts \<rparr>
   \<and> g_background (plot pts ls g) = g_background g
   \<and> Clear \<notin> set (segments t st pts)
   \<and> s_plot pts ls sg =
     sg\<lparr> s_canvas := s_canvas sg @
          segments (s_transform sg)
            (spreadLine \<lparr> strokeStyle = ''#308c2c'', lineWidth = 1 \<rparr> ls) pts \<rparr>"
  by (auto simp add: plot_eq s_plot_eq segments_def)

text \<open>
  The chart with one canvas, 100 by 100: after \<^verbatim>\<open>drawXAxis\<close> and then \<^verbatim>\<open>plot\<close> of two points
  the one canvas holds the axis and, after it, the segment. Nothing was cleared, and the
  segment went onto the canvas of the axis.
\<close>

theorem C7_single_canvas_counterexample:
  "s_canvas (s_plot [\<lparr> px = 0, py = 0 \<rparr>, \<lparr> px = 100, py = 100 \<rparr>]
       \<lparr> strokeStyle_opt = None, lineWidth_opt = None \<rparr>
       (s_drawXAxis \<lparr> strokeStyle_opt = None, lineWidth_opt = None \<rparr>
          (s_new_Graph \<lparr> width = 100, height = 100 \<rparr>)))
   = [Line \<lparr> px = 30, py = 70 \<rparr> \<lparr> px = 70, py = 70 \<rparr> \<lparr> strokeStyle = ''#FF0000'', lineWidth = 2 \<rparr>,
      Line \<lparr> px = 30, py = 70 \<rparr> \<lparr> px = 70, py = 30 \<rparr> \<lparr> strokeStyle = ''#308c2c'', lineWidth = 1 \<rparr>]"
  by (simp add: s_plot_def s_drawXAxis_def s_drawLine_def s_new_Graph_def s_set_xRange_def
      s_set_yRange_def s_updateTransform_def identity_def scale_def translate_def multiply_def
      scaling_def translation_def identity_matrix_def OFFSET_def transformPoint_def Let_def
      line_def spreadLine_def as_partial_def DEFAULT_LINE_STYLE_def)


section \<open>Axes\<close>

text \<open>
  C5. \<^verbatim>\<open>drawXAxis\<close> draws exactly one line, from \<open>x = xRange.min\<close> to \<open>x = xRange.max\<close>, at
  \<open>y = 0\<close> when \<open>yRange.min \<le> 0 \<le> yRange.max\<close> and at \<open>y = yRange.min\<close> otherwise;
  \<^verbatim>\<open>drawYAxis\<close> draws exactly one line, from \<open>y = yRange.min\<close> to \<open>y = yRange.max\<close>, at
  \<open>x = 0\<close> when \<open>xRange.min \<le> 0 \<le> xRange.max\<close> and at \<open>x = xRange.min\<close> otherwise. Both
  variants do so.
\<close>

theorem C5_axes:
  "g_background (drawXAxis ls g) =
     g_background g @
       [Line (transformPoint (g_transform g)
                \<lparr> px = rmin (g_xRange g),
                  py = (if rmin (g_yRange g) \<le> 0 \<and> 0 \<le> rmax (g_yRange g) then 0 else rmin (g_yRange g)) \<rparr>)
             (transformPoint (g_transform g)
                \<lparr> px = rmax (g_xRange g),
                  py = (if rmin (g_yRange g) \<le> 0 \<and> 0 \<le> rmax (g_yRange g) then 0 else rmin (g_yRange g)) \<rparr>)
             (spreadLine (DEFAULT_LINE_STYLE\<lparr> strokeStyle := AXIS_LINE_COLOR, lineWidth := 2 \<rparr>) ls)]
   \<and> g_background (drawYAxis ls g) =
     g_background g @
       [Line (transformPoint (g_transform g)
                \<lparr> px = (if rmin (g_xRange g) \<le> 0 \<and> 0 \<le> rmax (g_xRange g) then 0 else rmin (g_xRange g)),
                  py = rmin (g_yRange g) \<rparr>)
             (transformPoint (g_transform g)
                \<lparr> px = (if rmin (g_xRange g) \<le> 0 \<and> 0 \<le> rmax (g_xRange g) then 0 else rmin (g_xRange g)),
                  py = rmax (g_yRange g) \<rparr>)
             (spreadLine (DEFAULT_LINE_STYLE\<lparr> strokeStyle := AXIS_LINE_COLOR, lineWidth := 2 \<rparr>) ls)]
   \<and> s_canvas (s_drawXAxis ls sg) =
     s_canvas sg @
       [Line (transformPoint (s_transform sg)
                \<lparr> px = rmin (s_xRange sg),
                  py = (if rmin (s_yRange sg) \<le> 0 \<and> 0 \<le> rmax (s_yRange sg) then 0 else rmin (s_yRange sg)) \<rparr>)
             (transformPoint (s_transform sg)
                \<lparr> px = rmax (s_xRange sg),
                  py = (if rmin (s_yRange sg) \<le> 0 \<and> 0 \<le> rmax (s_yRange sg) then 0 else rmin (s_yRange sg)) \<rparr>)
             (spreadLine \<lparr> strokeStyle = ''#FF0000'', lineWidth = 2 \<rparr> ls)]
   \<and> s_canvas (s_drawYAxis ls sg) =
     s_canvas sg @
       [Line (transformPoint (s_transform sg)
                \<lparr> px = (if rmin (s_xRange sg) \<le> 0 \<and> 0 \<le> rmax (s_xRange sg) then 0 else rmin (s_xRange sg)),
                  py = rmin (s_yRange sg) \<rparr>)
             (transformPoint (s_transform sg)
                \<lparr> px = (if rmin (s_xRange sg) \<le> 0 \<and> 0 \<le> rmax (s_xRange sg) then 0 else rmin (s_xRange sg)),
                  py = rmax (s_yRange sg) \<rparr>)
             (spreadLine \<lparr> strokeStyle = ''#FF0000'', lineWidth = 2 \<rparr> ls)]"
  by (simp add: drawXAxis_def drawYAxis_def s_drawXAxis_def s_drawYAxis_def s_drawLine_def
      inRange_def line_def Let_def spreadLine_def as_partial_def not_le not_less)


text \<open>
  The axes of the spec, on a chart of 100 by 100: the x axis lies at \<open>y = 0\<close> for the y
  range \<open>[-50, 50]\<close> and at \<open>y = 10\<close> for the y range \<open>[10, 50]\<close>; the y axis lies at \<open>x = 10\<close>
  for the x range \<open>[10, 50]\<close>.
\<close>

theorem C5_axes_witness:
  "g_background (drawXAxis \<lparr> strokeStyle_opt = None, lineWidth_opt = None \<rparr>
       (set_yRange \<lparr> rmin = - 50, rmax = 50 \<rparr> (new_Graph \<lparr> width = 100, height = 100 \<rparr>)))
     = [Line (transformPoint (recompute \<lparr> width = 100, height = 100 \<rparr>
                 \<lparr> rmin = 0, rmax = 100 \<rparr> \<lparr> rmin = - 50, rmax = 50 \<rparr>) \<lparr> px = 0, py = 0 \<rparr>)
             (transformPoint (recompute \<lparr> width = 100, height = 100 \<rparr>
                 \<lparr> rmin = 0, rmax = 100 \<rparr> \<lparr> rmin = - 50, rmax = 50 \<rparr>) \<lparr> px = 100, py = 0 \<rparr>)
             \<lparr> strokeStyle = ''#ff0000'', lineWidth = 2 \<rparr>]
   \<and> g_background (drawXAxis \<lparr> strokeStyle_opt = None, lineWidth_opt = None \<rparr>
       (set_yRange \<lparr> rmin = 10, rmax = 50 \<rparr> (new_Graph \<lparr> width = 100, height = 100 \<rparr>)))
     = [Line (transformPoint (recompute \<lparr> width = 100, height = 100 \<rparr>
                 \<lparr> rmin = 0, rmax = 100 \<rparr> \<lparr> rmin = 10, rmax = 50 \<rparr>) \<lparr> px = 0, py = 10 \<rparr>)
             (transformPoint (recompute \<lparr> width = 100, height = 100 \<rparr>
                 \<lparr> rmin = 0, rmax = 100 \<rparr> \<lparr> rmin = 10, rmax = 50 \<rparr>) \<lparr> px = 100, py = 10 \<rparr>)
             \<lparr> strokeStyle = ''#ff0000'', lineWidth = 2 \<rparr>]
   \<and> g_background (drawYAxis \<lparr> strokeStyle_opt = None, lineWidth_opt = None \<rparr>
       (set_xRange \<lparr> rmin = 10, rmax = 50 \<rparr> (new_Graph \<lparr> width = 100, height = 100 \<rparr>)))
     = [Line (transformPoint (recompute \<lparr> width = 100, height = 100 \<rparr>
                 \<lparr> rmin = 10, rmax = 50 \<rparr> \<lparr> rmin = 0, rmax = 100 \<rparr>) \<lparr> px = 10, py = 0 \<rparr>)
             (transformPoint (recompute \<lparr> width = 100, height = 100 \<rparr>
                 \<lparr> rmin = 10, rmax = 50 \<rparr> \<lparr> rmin = 0, rmax = 100 \<rparr>) \<lparr> px = 10, py = 100 \<rparr>)
             \<lparr> strokeStyle = ''#ff0000'', lineWidth = 2 \<rparr>]"
  using C5_axes [of "\<lparr> strokeStyle_opt = None, lineWidth_opt = None \<rparr>"
      "set_yRange \<lparr> rmin = - 50, rmax = 50 \<rparr> (new_Graph \<lparr> width = 100, height = 100 \<rparr>)"]
    C5_axes [of "\<lparr> strokeStyle_opt = None, lineWidth_opt = None \<rparr>"
      "set_yRange \<lparr> rmin = 10, rmax = 50 \<rparr> (new_Graph \<lparr> width = 100, height = 100 \<rparr>)"]
    C5_axes [of "\<lparr> strokeStyle_opt = None, lineWidth_opt = None \<rparr>"
      "set_xRange \<lparr> rmin = 10, rmax = 50 \<rparr> (new_Graph \<lparr> width = 100, height = 100 \<rparr>)"]
  by (simp add: set_xRange_def set_yRange_def updateTransform_frame updateTransform_recompute
      new_Graph_fields spreadLine_def DEFAULT_LINE_STYLE_def AXIS_LINE_COLOR_def)

section \<open>Setting a range twice\<close>

text \<open>
  C6. Setting the x range to \<open>r\<close> twice in succession gives the same matrix, and the same
  chart, as setting it once; the matrix after the range is set does not depend on the
  matrix or on the x range the chart had before.
\<close>

theorem C6_set_xRange_idempotent:
  "g_transform (set_xRange r (set_xRange r g)) = g_transform (set_xRange r g)
   \<and> set_xRange r (set_xRange r g) = set_xRange r g
   \<and> g_transform (set_xRange r (g\<lparr> g_transform := t, g_xRange := r0 \<rparr>)) = g_transform (set_xRange r g)
   \<and> s_transform (s_set_xRange r (s_set_xRange r sg)) = s_transform (s_set_xRange r sg)"
  by (simp add: set_xRange_def s_set_xRange_def updateTransform_def s_updateTransform_def
      Let_def identity_def)


section \<open>The two variants\<close>

text \<open>
  C9. For the same size and the same two ranges, and whatever the canvases and the
  earlier matrices are, \<^verbatim>\<open>updateTransform\<close> builds the same matrix in the variant with
  two canvases and in the variant with one, so that \<^verbatim>\<open>transformPoint\<close> agrees on every
  point; the two constructors give the same matrix as well.
\<close>

theorem C9_variants_agree:
  "g_transform (updateTransform
       \<lparr> g_background = bg, g_foreground = fg, g_size = sz, g_transform = t,
         g_xRange = xr, g_yRange = yr \<rparr>)
   = s_transform (s_updateTransform
       \<lparr> s_canvas = cv, s_size = sz, s_transform = t', s_xRange = xr, s_yRange = yr \<rparr>)
   \<and> transformPoint (g_transform (updateTransform
       \<lparr> g_background = bg, g_foreground = fg, g_size = sz, g_transform = t,
         g_xRange = xr, g_yRange = yr \<rparr>)) p
   = transformPoint (s_transform (s_updateTransform
       \<lparr> s_canvas = cv, s_size = sz, s_transform = t', s_xRange = xr, s_yRange = yr \<rparr>)) p
   \<and> g_transform (new_Graph sz) = s_transform (s_new_Graph sz)"
  by (simp add: updateTransform_recompute s_updateTransform_recompute new_Graph_def s_new_Graph_def
      set_xRange_def set_yRange_def s_set_xRange_def s_set_yRange_def Let_def
      updateTransform_frame s_updateTransform_frame)


section \<open>What drawing leaves alone\<close>

lemma fold_chart_state:
  assumes "\<And>x h. g_xRange (f x h) = g_xRange h"
    and "\<And>x h. g_yRange (f x h) = g_yRange h"
    and "\<And>x h. g_size (f x h) = g_size h"
    and "\<And>x h. g_transform (f x h) = g_transform h"
  shows "chart_state (fold f xs g) = chart_state g"
proof (induction xs arbitrary: g)
  case Nil
  then show ?case by simp
next
  case (Cons x xs)
  have "chart_state (f x g) = chart_state g"
    by (simp add: chart_state_def assms)
  with Cons show ?case by simp
qed

lemma drawGrid_frame:
  assumes "drawGrid xStep yStep ls g = Some g'"
  shows "chart_state g' = chart_state g"
  using assms
  by (auto simp add: drawGrid_def Let_def fold_vertical fold_horizontal chart_state_def
      split: option.splits)

lemma drawXLabels_frame:
  assumes "drawXLabels String_of step ts g = Some g'"
  shows "chart_state g' = chart_state g"
  using assms
  by (auto simp add: drawXLabels_def Let_def split: option.splits intro!: fold_chart_state)

lemma drawYLabels_frame:
  assumes "drawYLabels String_of step ts g = Some g'"
  shows "chart_state g' = chart_state g"
  using assms
  by (auto simp add: drawYLabels_def Let_def split: option.splits intro!: fold_chart_state)

lemma labels_return:
  assumes "0 < step"
  shows "drawXLabels String_of step ts g \<noteq> None"
    and "drawYLabels String_of step ts g \<noteq> None"
  using assms
  by (simp_all add: drawXLabels_def drawYLabels_def Let_def iterator_range_ticks)

text \<open>
  C10. Each drawing operation of the chart (\<^verbatim>\<open>plot\<close>, \<^verbatim>\<open>drawGrid\<close>, \<^verbatim>\<open>drawXAxis\<close>,
  \<^verbatim>\<open>drawYAxis\<close>, \<^verbatim>\<open>drawXLabels\<close>, \<^verbatim>\<open>drawYLabels\<close>) leaves the two ranges, the size and
  the matrix of the transform as they were; the grid and the labels, which return
  for positive steps, do so whenever they return.
\<close>

theorem C10_drawing_keeps_transform:
  "chart_state (plot pts ls g) = chart_state g
   \<and> chart_state (drawXAxis ls g) = chart_state g
   \<and> chart_state (drawYAxis ls g) = chart_state g
   \<and> (\<forall>g'. drawGrid xStep yStep ls g = Some g' \<longrightarrow> chart_state g' = chart_state g)
   \<and> (\<forall>g'. drawXLabels String_of step ts g = Some g' \<longrightarrow> chart_state g' = chart_state g)
   \<and> (\<forall>g'. drawYLabels String_of step ts g = Some g' \<longrightarrow> chart_state g' = chart_state g)
   \<and> (0 < xStep \<and> 0 < yStep \<longrightarrow> drawGrid xStep yStep ls g \<noteq> None)
   \<and> (0 < step \<longrightarrow> drawXLabels String_of step ts g \<noteq> None
                    \<and> drawYLabels String_of step ts g \<noteq> None)"
proof -
  have 1: "chart_state (plot pts ls g) = chart_state g"
    by (simp add: plot_eq chart_state_def)
  have 2: "chart_state (drawXAxis ls g) = chart_state g"
    by (simp add: drawXAxis_def Let_def chart_state_def)
  have 3: "chart_state (drawYAxis ls g) = chart_state g"
    by (simp add: drawYAxis_def Let_def chart_state_def)
  have 4: "\<forall>g'. drawGrid xStep yStep ls g = Some g' \<longrightarrow> chart_state g' = chart_state g"
    using drawGrid_frame by blast
  have 5: "\<forall>g'. drawXLabels String_of step ts g = Some g' \<longrightarrow> chart_state g' = chart_state g"
    using drawXLabels_frame by blast
  have 6: "\<forall>g'. drawYLabels String_of step ts g = Some g' \<longrightarrow> chart_state g' = chart_state g"
    using drawYLabels_frame by blast
  have 7: "0 < xStep \<and> 0 < yStep \<longrightarrow> drawGrid xStep yStep ls g \<noteq> None"
    by (simp add: drawGrid_Some iterator_range_ticks)
  have 8: "0 < step \<longrightarrow> drawXLabels String_of step ts g \<noteq> None
                    \<and> drawYLabels String_of step ts g \<noteq> None"
    using labels_return by blast
  from 1 2 3 4 5 6 7 8 show ?thesis by (intro conjI)
qed

theorem C10_drawing_keeps_transform_witness:
  "drawGrid 50 50 \<lparr> strokeStyle_opt = None, lineWidth_opt = None \<rparr>
      (new_Graph \<lparr> width = 100, height = 100 \<rparr>) \<noteq> None
   \<and> chart_state (the (drawGrid 50 50 \<lparr> strokeStyle_opt = None, lineWidth_opt = None \<rparr>
        (new_Graph \<lparr> width = 100, height = 100 \<rparr>)))
     = chart_state (new_Graph \<lparr> width = 100, height = 100 \<rparr>)
   \<and> chart_state (the (drawXLabels (\<lambda>v. ''tick'') 50
        \<lparr> font_opt = None, fillStyle_opt = None, textAlign_opt = None \<rparr>
        (new_Graph \<lparr> width = 100, height = 100 \<rparr>)))
     = chart_state (new_Graph \<lparr> width = 100, height = 100 \<rparr>)
   \<and> chart_state (the (drawYLabels (\<lambda>v. ''tick'') 50
        \<lparr> font_opt = None, fillStyle_opt = None, textAlign_opt = None \<rparr>
        (new_Graph \<lparr> width = 100, height = 100 \<rparr>)))
     = chart_state (new_Graph \<lparr> width = 100, height = 100 \<rparr>)"
  using C10_drawing_keeps_transform [of "[]" "\<lparr> strokeStyle_opt = None, lineWidth_opt = None \<rparr>"
      "new_Graph \<lparr> width = 100, height = 100 \<rparr>" 50 50 "\<lambda>v. ''tick''" 50
      "\<lparr> font_opt = None, fillStyle_opt = None, textAlign_opt = None \<rparr>"]
  by auto


section \<open>Properties of the double arithmetic\<close>

declare halvings.simps [simp del] doublings.simps [simp del]

lemmas round_eval = round_double_def nearest_def quantum_def exponent_def halvings.simps
  doublings.simps round_half_even_def Let_def power_int_def power_one_over inverse_eq_divide

lemmas number_eval = plus_number_def minus_number_def uminus_number_def times_number_def
  divide_number_def less_eq_number_def less_number_def is_nan_def is_inf_def is_zero_def
  signed_zero_def signed_inf_def

subsection \<open>Rounding to the nearest integer, ties to even\<close>





subsection \<open>The exponent\<close>






subsection \<open>The nearest double\<close>


lemma p2_mono: "a \<le> b \<Longrightarrow> (2::real) powi a \<le> 2 powi b"
  by (rule power_int_increasing) simp_all

lemma p2_less_imp: "(2::real) powi a < 2 powi b \<Longrightarrow> a < b"
  using p2_mono[of b a] by (cases "a < b") auto


lemma quantum_uminus [simp]: "quantum (- x) = quantum x"
  by (simp add: quantum_def)









subsection \<open>A double rounds to itself\<close>








subsection \<open>Arithmetic on the constructors\<close>

lemma add_Num: "Num x + Num y = round_double (x + y)"
  by (simp add: number_eval)

lemma add_NegZero:
  "Num x + NegZero = round_double x"
  "NegZero + Num x = round_double x"
  "NegZero + NegZero = NegZero"
  by (simp_all add: number_eval)

lemma uminus_Num: "- Num x = (if x = 0 then NegZero else Num (- x))"
  and uminus_NegZero: "- NegZero = Num 0"
  by (simp_all add: uminus_number_def)

lemma mul_Num:
  "Num x * Num y =
     (if x = 0 \<or> y = 0 then (if (x < 0) \<noteq> (y < 0) then NegZero else Num 0)
      else round_double (x * y))"
  by (simp add: number_eval)

lemma mul_NegZero:
  "Num x * NegZero = (if x < 0 then Num 0 else NegZero)"
  "NegZero * Num x = (if x < 0 then Num 0 else NegZero)"
  "NegZero * NegZero = Num 0"
  by (simp_all add: number_eval)

lemma div_Num:
  "Num x / Num y =
     (if y = 0 then (if x = 0 then NaN else if x < 0 then NegInf else PosInf)
      else if x = 0 then (if y < 0 then NegZero else Num 0)
      else round_double (x / y))"
  by (simp add: number_eval)

lemma div_NegZero:
  "Num x / NegZero = (if x = 0 then NaN else if x < 0 then PosInf else NegInf)"
  by (simp add: number_eval)

lemma round_double_0 [simp]: "round_double 0 = Num 0"
  by (simp add: round_double_def)

lemmas num_arith = add_Num add_NegZero uminus_Num uminus_NegZero mul_Num mul_NegZero div_Num
  div_NegZero minus_number_def

lemma non_finite_add: "non_finite a \<Longrightarrow> non_finite (a + b)" "non_finite b \<Longrightarrow> non_finite (a + b)"
  by (auto simp: non_finite_def number_eval)

lemma non_finite_mul: "non_finite a \<Longrightarrow> non_finite (a * b)" "non_finite b \<Longrightarrow> non_finite (a * b)"
  by (auto simp: non_finite_def number_eval)

lemma non_finite_div_zero: "is_zero b \<Longrightarrow> non_finite (a / b)"
  by (auto simp: non_finite_def number_eval)


subsection \<open>The transform of the chart, in doubles\<close>

lemma f_updateTransform_recompute:
  "f_updateTransform g = g\<lparr> f_transform := f_recompute (f_size g) (f_xRange g) (f_yRange g) \<rparr>"
  by (simp add: f_updateTransform_def f_recompute_def f_identity_def Let_def)


lemma rd_consts:
  "round_double 1 = Num 1" "round_double (- 1) = Num (- 1)"
  "round_double 30 = Num 30" "round_double (- 30) = Num (- 30)"
  "round_double 60 = Num 60" "round_double (- 60) = Num (- 60)"
  by (simp_all add: round_eval)





subsection \<open>A range of width zero\<close>

lemma f_scale_non_finite:
  "non_finite sx \<Longrightarrow> non_finite (fm_a (f_scale sx sy t))"
  "non_finite sy \<Longrightarrow> non_finite (fm_d (f_scale sx sy t))"
  by (simp_all add: f_scale_def f_multiply_def f_scaling_def non_finite_add non_finite_mul)

lemma f_translate_non_finite:
  "non_finite (fm_a t) \<Longrightarrow> non_finite (fm_a (f_translate tx ty t))"
  "non_finite (fm_d t) \<Longrightarrow> non_finite (fm_d (f_translate tx ty t))"
  by (simp_all add: f_translate_def f_multiply_def f_translation_def non_finite_add non_finite_mul)

lemma f_transformPoint_non_finite:
  "non_finite (fm_a t) \<Longrightarrow> non_finite (fx (f_transformPoint t p))"
  "non_finite (fm_d t) \<Longrightarrow> non_finite (fy (f_transformPoint t p))"
  by (simp_all add: f_transformPoint_def non_finite_add non_finite_mul)

lemma zero_width_x:
  assumes "is_zero (fmax xr - fmin xr)"
  shows "non_finite (fx (f_transformPoint (f_recompute sz xr yr) p))"
  unfolding f_recompute_def
  by (intro f_transformPoint_non_finite f_translate_non_finite f_scale_non_finite
      non_finite_div_zero assms)

lemma zero_width_y:
  assumes "is_zero (fmax yr - fmin yr)"
  shows "non_finite (fy (f_transformPoint (f_recompute sz xr yr) p))"
  unfolding f_recompute_def
  by (intro f_transformPoint_non_finite f_translate_non_finite f_scale_non_finite
      non_finite_div_zero assms)

text \<open>
  C8. Setting a range of width zero (its maximum minus its minimum is a zero) throws
  nothing: the setter returns the chart, whose scale factor is the quotient by that zero,
  an infinity or NaN, and whose transform sends every point to a pixel \<open>x\<close> (for the x
  range) or a pixel \<open>y\<close> (for the y range) that is an infinity or NaN. On every chart
  and for every argument, \<^verbatim>\<open>plot\<close> and the two axes return a chart, and the grid and the
  labels return one whenever their stepped range ends; none of the operations throws.
\<close>

theorem C8_zero_width_is_silent:
  assumes "is_zero (fmax r - fmin r)"
  shows "f_set_xRange r g = Inr (f_updateTransform (g\<lparr> f_xRange := r \<rparr>))
       \<and> non_finite (fx (f_transformPoint
             (f_transform (f_updateTransform (g\<lparr> f_xRange := r \<rparr>))) p))
       \<and> f_set_yRange r g = Inr (f_updateTransform (g\<lparr> f_yRange := r \<rparr>))
       \<and> non_finite (fy (f_transformPoint
             (f_transform (f_updateTransform (g\<lparr> f_yRange := r \<rparr>))) p))
       \<and> f_plot pts ls h \<noteq> Inl e
       \<and> f_drawXAxis ls h \<noteq> Inl e
       \<and> f_drawYAxis ls h \<noteq> Inl e
       \<and> f_drawGrid xStep yStep ls h \<noteq> Some (Inl e)
       \<and> f_drawXLabels String_of step ts h \<noteq> Some (Inl e)
       \<and> f_drawYLabels String_of step ts h \<noteq> Some (Inl e)"
proof -
  have "f_plot pts ls h \<noteq> Inl e" "f_drawXAxis ls h \<noteq> Inl e" "f_drawYAxis ls h \<noteq> Inl e"
    by (simp_all add: f_plot_def f_drawXAxis_def f_drawYAxis_def Let_def)
  moreover have "f_drawGrid xStep yStep ls h \<noteq> Some (Inl e)"
    by (simp add: f_drawGrid_def Let_def split: option.splits)
  moreover have "f_drawXLabels String_of step ts h \<noteq> Some (Inl e)"
    "f_drawYLabels String_of step ts h \<noteq> Some (Inl e)"
    by (simp_all add: f_drawXLabels_def f_drawYLabels_def Let_def split: option.splits)
  ultimately show ?thesis
    using zero_width_x[OF assms] zero_width_y[OF assms]
    by (simp add: f_set_xRange_def f_set_yRange_def f_updateTransform_recompute)
qed

text \<open>
  The range \<open>[5, 5]\<close> on a chart of 100 by 100: the width is a zero, the scale factor is
  \<open>40 / 0\<close>, plus infinity, and the pixel \<open>x\<close> of the point \<open>(3, 4)\<close> is not finite.
\<close>

theorem C8_zero_width_is_silent_witness:
  "is_zero (Num 5 - Num 5)
   \<and> (Num 100 - f_OFFSET * Num 2) / (Num 5 - Num 5) = PosInf
   \<and> non_finite (fx (f_transformPoint
        (f_transform (f_updateTransform
           \<lparr> f_background = [], f_foreground = [],
             f_size = \<lparr> fwidth = Num 100, fheight = Num 100 \<rparr>,
             f_transform = f_identity_matrix,
             f_xRange = \<lparr> fmin = Num 5, fmax = Num 5 \<rparr>,
             f_yRange = \<lparr> fmin = Num 0, fmax = Num 100 \<rparr> \<rparr>))
        \<lparr> fx = Num 3, fy = Num 4 \<rparr>))"
proof -
  have z: "is_zero (fmax \<lparr> fmin = Num 5, fmax = Num 5 \<rparr> - fmin \<lparr> fmin = Num 5, fmax = Num 5 \<rparr>)"
    by (simp add: num_arith is_zero_def)
  have q: "(Num 100 - f_OFFSET * Num 2) / (Num 5 - Num 5) = PosInf"
    by (simp add: num_arith f_OFFSET_def rd_consts round_eval)
  show ?thesis
    using z q C8_zero_width_is_silent [OF z,
        of "\<lparr> f_background = [], f_foreground = [],
             f_size = \<lparr> fwidth = Num 100, fheight = Num 100 \<rparr>,
             f_transform = f_identity_matrix,
             f_xRange = \<lparr> fmin = Num 0, fmax = Num 100 \<rparr>,
             f_yRange = \<lparr> fmin = Num 0, fmax = Num 100 \<rparr> \<rparr>"
           "\<lparr> fx = Num 3, fy = Num 4 \<rparr>"]
    by simp
qed

subsection \<open>The default ranges, on doubles\<close>









end
